theory Spec2Isabelle
  imports Complex_Main "HOL-Library.Word"
begin

section \<open>JavaScript values\<close>

text \<open>
  The library under study (\<^verbatim>\<open>src/index.ts\<close>) is one class with one method,
  \<^verbatim>\<open>generateImage\<close>. It builds a request object, serialises it with
  \<^verbatim>\<open>JSON.stringify\<close>, sends it, parses the answer with \<^verbatim>\<open>JSON.parse\<close> and tests
  the parsed value with JavaScript truthiness. The model therefore starts with the values
  of the language.

  A JavaScript number is a double. No arithmetic is done on numbers by the code: they are
  tested for truthiness, copied, and serialised. The finite numbers are modelled by the
  reals (every finite double is one), with the four special values kept apart.
\<close>

datatype number = Finite real | NegZero | NaN | PosInfinity | NegInfinity

datatype jsval =
    Undefined
  | Null
  | Bool bool
  | Num number
  | Str string
  | Arr "jsval list"
  | Obj "(string \<times> jsval) list"

text \<open>An object is the list of its own properties in insertion order.\<close>

fun truthy_number :: "number \<Rightarrow> bool" where
  "truthy_number (Finite r) = (r \<noteq> 0)"
| "truthy_number NegZero = False"
| "truthy_number NaN = False"
| "truthy_number PosInfinity = True"
| "truthy_number NegInfinity = True"

fun truthy :: "jsval \<Rightarrow> bool" where
  "truthy Undefined = False"
| "truthy Null = False"
| "truthy (Bool b) = b"
| "truthy (Num n) = truthy_number n"
| "truthy (Str s) = (s \<noteq> [])"
| "truthy (Arr xs) = True"
| "truthy (Obj kvs) = True"

text \<open>An optional field of the input is \<^verbatim>\<open>undefined\<close> when absent.\<close>

definition opt_str :: "string option \<Rightarrow> jsval" where
  "opt_str s = (case s of None \<Rightarrow> Undefined | Some x \<Rightarrow> Str x)"

definition opt_num :: "number option \<Rightarrow> jsval" where
  "opt_num n = (case n of None \<Rightarrow> Undefined | Some x \<Rightarrow> Num x)"

definition opt_strs :: "string list option \<Rightarrow> jsval" where
  "opt_strs l = (case l of None \<Rightarrow> Undefined | Some xs \<Rightarrow> Arr (map Str xs))"

subsection \<open>JSON documents and \<^verbatim>\<open>JSON.stringify\<close>\<close>

text \<open>
  The wire payload is the JSON text of the request object. It is modelled by the document
  tree that the text denotes. \<^verbatim>\<open>JSON.stringify\<close> leaves out every property
  whose value is \<^verbatim>\<open>undefined\<close>, writes \<^verbatim>\<open>null\<close> for an undefined array element and
  for \<^verbatim>\<open>NaN\<close> and the infinities, and writes \<^verbatim>\<open>0\<close> for negative zero. For the value
  \<^verbatim>\<open>undefined\<close> itself it returns \<^verbatim>\<open>undefined\<close>, here \<open>None\<close>.
\<close>

datatype json =
    JNull
  | JBool bool
  | JNum real
  | JStr string
  | JArr "json list"
  | JObj "(string \<times> json) list"

primrec JSON_stringify :: "jsval \<Rightarrow> json option" where
  "JSON_stringify Undefined = None"
| "JSON_stringify Null = Some JNull"
| "JSON_stringify (Bool b) = Some (JBool b)"
| "JSON_stringify (Num n) =
     Some (case n of Finite r \<Rightarrow> JNum r | NegZero \<Rightarrow> JNum 0 | _ \<Rightarrow> JNull)"
| "JSON_stringify (Str s) = Some (JStr s)"
| "JSON_stringify (Arr xs) =
     Some (JArr (map (\<lambda>j. case j of None \<Rightarrow> JNull | Some d \<Rightarrow> d) (map JSON_stringify xs)))"
| "JSON_stringify (Obj kvs) =
     Some (JObj (List.map_filter (\<lambda>(k, j). map_option (Pair k) j)
                   (map (map_prod id JSON_stringify) kvs)))"

text \<open>Reading a member of a JSON object; \<open>None\<close> when the key is not there.\<close>

fun member :: "json \<Rightarrow> string \<Rightarrow> json option" where
  "member (JObj kvs) k = map_of kvs k"
| "member _ k = None"

subsection \<open>Thrown values\<close>

text \<open>
  Anything can be thrown in JavaScript. The \<^verbatim>\<open>catch\<close> of \<^verbatim>\<open>generateImage\<close> tells
  instances of \<^verbatim>\<open>Error\<close>, of which it reads the \<^verbatim>\<open>message\<close>, from every other
  value, which it converts with \<^verbatim>\<open>String\<close>. The message of an \<^verbatim>\<open>Error\<close> made with
  \<^verbatim>\<open>new Error(text)\<close> is a string; nothing makes it one in an \<^verbatim>\<open>Error\<close> that comes
  from elsewhere, so \<open>Error\<close> carries any value.
\<close>

datatype thrown = Error jsval | NonError jsval

section \<open>The data of \<^verbatim>\<open>src/index.ts\<close>\<close>

type_synonym byte = "8 word"

datatype BedrockRuntimeClient = BedrockRuntimeClient string

record InvokeModelCommand =
  modelId :: string
  body :: "json option"
  contentType :: string
  accept :: string

record BedrockImageManipulation =
  bedrock :: BedrockRuntimeClient
  region :: string

record ImageGenerationResult =
  imageBytes :: "byte list"
  base64Image :: jsval
  modelId :: string

text \<open>
  The field \<^verbatim>\<open>base64Image\<close> of the result is \<^verbatim>\<open>responseBody.images[0]\<close> as parsed:
  TypeScript declares it a string, the code does not check it.

  The unions of string literals of the input (\<^verbatim>\<open>TaskType\<close>, the quality, the modes) are
  strings at run time, and the \<^verbatim>\<open>default\<close> branch of the switch on \<^verbatim>\<open>taskType\<close> is
  reached only by a string outside the union, so they are modelled as strings.
\<close>

record imageConfig_t =
  width :: "number option"
  height :: "number option"
  quality :: "string option"
  cfgScale :: "number option"
  seed :: "number option"
  numberOfImages :: "number option"

record ImageGenerationInput =
  prompt :: "string option"
  modelId :: "string option"
  region :: "string option"
  taskType :: string
  imageConfig :: "imageConfig_t option"
  base64Image :: "string option"
  maskImage :: "string option"
  maskPrompt :: "string option"
  negativePrompt :: "string option"
  outPaintingMode :: "string option"
  conditionImage :: "string option"
  controlMode :: "string option"
  controlStrength :: "number option"
  colorHexList :: "string list option"

subsection \<open>The platform\<close>

text \<open>
  What the method calls and the repository does not define is a parameter of the model:
  the constructor \<^verbatim>\<open>new BedrockRuntimeClient({ region })\<close> of the SDK, which throws
  for some regions (\<^verbatim>\<open>Region is missing\<close> for the empty string), the remote service
  behind \<^verbatim>\<open>client.send\<close>, \<^verbatim>\<open>TextDecoder.decode\<close>, \<^verbatim>\<open>JSON.parse\<close>, the
  conversion to a string of a number, an array or an object, which throws a
  \<^verbatim>\<open>TypeError\<close> for an object that has no callable \<^verbatim>\<open>toString\<close> or \<^verbatim>\<open>valueOf\<close>
  (as the parsed \<^verbatim>\<open>{toString: 1}\<close>), and \<^verbatim>\<open>Buffer.from(v, 'base64')\<close> for a \<open>v\<close>
  that is not a string. Every theorem holds for every platform.
\<close>

datatype send_outcome = Rejects thrown | Resolves "byte list option"

record platform =
  new_BedrockRuntimeClient :: "string \<Rightarrow> thrown + BedrockRuntimeClient"
  send :: "BedrockRuntimeClient \<Rightarrow> InvokeModelCommand \<Rightarrow> send_outcome"
  TextDecoder_decode :: "byte list \<Rightarrow> string"
  JSON_parse :: "string \<Rightarrow> thrown + jsval"
  String_other :: "jsval \<Rightarrow> thrown + string"
  Buffer_from_other :: "jsval \<Rightarrow> thrown + byte list"

text \<open>
  \<^verbatim>\<open>String(v)\<close>, and the conversion a template literal applies to \<open>v\<close>: the two agree
  on the values modelled here. It cannot throw for a string, \<^verbatim>\<open>undefined\<close>,
  \<^verbatim>\<open>null\<close> or a boolean.
\<close>

definition js_String :: "platform \<Rightarrow> jsval \<Rightarrow> thrown + string" where
  "js_String pf v =
     (case v of
        Str s \<Rightarrow> Inr s
      | Undefined \<Rightarrow> Inr ''undefined''
      | Null \<Rightarrow> Inr ''null''
      | Bool b \<Rightarrow> Inr (if b then ''true'' else ''false'')
      | _ \<Rightarrow> String_other pf v)"

text \<open>
  Reading a property \<^verbatim>\<open>v.name\<close>: a \<^verbatim>\<open>TypeError\<close> on \<^verbatim>\<open>null\<close> and
  \<^verbatim>\<open>undefined\<close>, the own property of an object (\<^verbatim>\<open>undefined\<close> when it has
  none of that name), and \<^verbatim>\<open>undefined\<close> on every other value for the two names the
  code reads (\<^verbatim>\<open>error\<close>, \<^verbatim>\<open>images\<close>), which no prototype defines.
\<close>

definition field :: "(string \<times> jsval) list \<Rightarrow> string \<Rightarrow> jsval" where
  "field kvs name = (case map_of kvs name of None \<Rightarrow> Undefined | Some v \<Rightarrow> v)"

definition cannot_read :: "string \<Rightarrow> string \<Rightarrow> thrown" where
  "cannot_read what name =
     Error (Str (''Cannot read properties of '' @ what @ '' (reading '' @ [CHR 0x27] @ name
            @ [CHR 0x27] @ '')''))"

fun get_prop :: "jsval \<Rightarrow> string \<Rightarrow> thrown + jsval" where
  "get_prop Undefined name = Inl (cannot_read ''undefined'' name)"
| "get_prop Null name = Inl (cannot_read ''null'' name)"
| "get_prop (Obj kvs) name = Inr (field kvs name)"
| "get_prop _ name = Inr Undefined"

text \<open>
  \<^verbatim>\<open>v[0]\<close>, read only of a truthy \<open>v\<close>: the first element of an array, the first
  character of a string, the property \<^verbatim>\<open>"0"\<close> of an object.
\<close>

fun index0 :: "jsval \<Rightarrow> jsval" where
  "index0 (Arr (x # xs)) = x"
| "index0 (Str (c # cs)) = Str [c]"
| "index0 (Obj kvs) = field kvs ''0''"
| "index0 _ = Undefined"

section \<open>Base64 as Node's \<^verbatim>\<open>Buffer\<close> does it\<close>

text \<open>
  Modelled from the spec: the base64 encoder and decoder. The repository defines neither:
  the script \<^verbatim>\<open>scripts/run-image-generation.ts\<close> encodes the files it reads with
  \<^verbatim>\<open>buffer.toString('base64')\<close>, and the method decodes the image it receives with
  \<^verbatim>\<open>Buffer.from(s, 'base64')\<close> (line 200), both of Node's \<^verbatim>\<open>Buffer\<close>. The spec
  names the encoding base64 and no more, so the definitions follow RFC 4648 as Node
  implements it: the encoder writes the standard alphabet with \<^verbatim>\<open>=\<close> padding, four
  characters for every three bytes; the decoder stops at the first \<^verbatim>\<open>=\<close>, skips
  every character outside the alphabet (it also reads \<^verbatim>\<open>-\<close> and \<^verbatim>\<open>_\<close> of the URL
  alphabet), and turns the sextets it has read into bytes, a last group of two or three
  sextets giving one or two bytes. Shifts and masks are written as \<open>div\<close> and
  \<open>mod\<close> on naturals.
\<close>

definition base64_table :: string where
  "base64_table =
     ''ABCDEFGHIJKLMNOPQRSTUVWXYZabcdefghijklmnopqrstuvwxyz0123456789+/''"

fun base64_encode_nat :: "nat list \<Rightarrow> string" where
  "base64_encode_nat (a # b # c # rest) =
     [base64_table ! (a div 4),
      base64_table ! ((a mod 4) * 16 + b div 16),
      base64_table ! ((b mod 16) * 4 + c div 64),
      base64_table ! (c mod 64)] @ base64_encode_nat rest"
| "base64_encode_nat [a, b] =
     [base64_table ! (a div 4),
      base64_table ! ((a mod 4) * 16 + b div 16),
      base64_table ! ((b mod 16) * 4),
      CHR ''='']"
| "base64_encode_nat [a] =
     [base64_table ! (a div 4),
      base64_table ! ((a mod 4) * 16),
      CHR ''='', CHR ''='']"
| "base64_encode_nat [] = []"

definition base64_encode :: "byte list \<Rightarrow> string" where
  "base64_encode bs = base64_encode_nat (map unat bs)"

definition unbase64 :: "char \<Rightarrow> nat option" where
  "unbase64 c =
     (let n = of_char c :: nat in
      if 65 \<le> n \<and> n \<le> 90 then Some (n - 65)
      else if 97 \<le> n \<and> n \<le> 122 then Some (n - 71)
      else if 48 \<le> n \<and> n \<le> 57 then Some (n + 4)
      else if c = CHR ''+'' \<or> c = CHR ''-'' then Some 62
      else if c = CHR ''/'' \<or> c = CHR ''_'' then Some 63
      else None)"

fun sextets :: "string \<Rightarrow> nat list" where
  "sextets [] = []"
| "sextets (c # cs) =
     (if c = CHR ''='' then []
      else (case unbase64 c of None \<Rightarrow> sextets cs | Some n \<Rightarrow> n # sextets cs))"

fun base64_decode_nat :: "nat list \<Rightarrow> nat list" where
  "base64_decode_nat (a # b # c # d # rest) =
     [a * 4 + b div 16, (b mod 16) * 16 + c div 4, (c mod 4) * 64 + d]
       @ base64_decode_nat rest"
| "base64_decode_nat [a, b, c] = [a * 4 + b div 16, (b mod 16) * 16 + c div 4]"
| "base64_decode_nat [a, b] = [a * 4 + b div 16]"
| "base64_decode_nat _ = []"

definition base64_decode :: "string \<Rightarrow> byte list" where
  "base64_decode s = map of_nat (base64_decode_nat (sextets s))"

definition Buffer_from :: "platform \<Rightarrow> jsval \<Rightarrow> thrown + byte list" where
  "Buffer_from pf v = (case v of Str s \<Rightarrow> Inr (base64_decode s) | _ \<Rightarrow> Buffer_from_other pf v)"

section \<open>The request body\<close>

text \<open>
  Lines 75 to 173 of \<^verbatim>\<open>generateImage\<close>: the defaults of the destructuring, which
  apply to an absent field, the object literal, and the switch on \<^verbatim>\<open>taskType\<close>.
  A spread \<^verbatim>\<open>...(c && {k})\<close> adds the property when \<open>c\<close> is truthy and nothing
  otherwise.
\<close>

definition default_modelId :: string where
  "default_modelId = ''amazon.nova-canvas-v1:0''"

definition empty_imageConfig :: imageConfig_t where
  "empty_imageConfig =
     \<lparr>width = None, height = None, quality = None, cfgScale = None, seed = None,
      numberOfImages = None\<rparr>"

definition imageConfig_of :: "ImageGenerationInput \<Rightarrow> imageConfig_t" where
  "imageConfig_of opts = (case imageConfig opts of None \<Rightarrow> empty_imageConfig | Some c \<Rightarrow> c)"

definition imageGenerationConfig :: "ImageGenerationInput \<Rightarrow> (string \<times> jsval) list" where
  "imageGenerationConfig opts =
     (let cfg = imageConfig_of opts;
          w = (case width cfg of None \<Rightarrow> Finite 1024 | Some x \<Rightarrow> x);
          h = (case height cfg of None \<Rightarrow> Finite 1024 | Some x \<Rightarrow> x);
          q = (case quality cfg of None \<Rightarrow> ''premium'' | Some x \<Rightarrow> x);
          g = (case cfgScale cfg of None \<Rightarrow> Finite 8 | Some x \<Rightarrow> x);
          n = (case numberOfImages cfg of None \<Rightarrow> Finite 1 | Some x \<Rightarrow> x)
      in [(''numberOfImages'', Num n), (''quality'', Str q), (''cfgScale'', Num g)]
         @ (case seed cfg of None \<Rightarrow> [] | Some s \<Rightarrow> [(''seed'', Num s)])
         @ (if truthy_number w then [(''width'', Num w)] else [])
         @ (if truthy_number h then [(''height'', Num h)] else []))"

definition textToImageParams :: "ImageGenerationInput \<Rightarrow> (string \<times> jsval) list" where
  "textToImageParams opts =
     [(''text'', opt_str (prompt opts)), (''negativeText'', opt_str (negativePrompt opts))]
     @ (if truthy (opt_str (conditionImage opts))
        then [(''conditionImage'', opt_str (conditionImage opts)),
              (''controlMode'', opt_str (controlMode opts)),
              (''controlStrength'', opt_num (controlStrength opts))]
        else [])"

definition inPaintingParams :: "ImageGenerationInput \<Rightarrow> (string \<times> jsval) list" where
  "inPaintingParams opts =
     [(''image'', opt_str (base64Image opts)),
      (''maskImage'', opt_str (maskImage opts)),
      (''maskPrompt'', opt_str (maskPrompt opts)),
      (''text'', opt_str (prompt opts)),
      (''negativeText'', opt_str (negativePrompt opts))]"

definition outPaintingParams :: "ImageGenerationInput \<Rightarrow> (string \<times> jsval) list" where
  "outPaintingParams opts =
     [(''image'', opt_str (base64Image opts)),
      (''maskImage'', opt_str (maskImage opts)),
      (''maskPrompt'', opt_str (maskPrompt opts)),
      (''text'', opt_str (prompt opts)),
      (''negativeText'', opt_str (negativePrompt opts)),
      (''outPaintingMode'',
         (if truthy (opt_str (outPaintingMode opts)) then opt_str (outPaintingMode opts)
          else Str ''DEFAULT''))]"

definition backgroundRemovalParams :: "ImageGenerationInput \<Rightarrow> (string \<times> jsval) list" where
  "backgroundRemovalParams opts = [(''image'', opt_str (base64Image opts))]"

definition colorGuidedGenerationParams :: "ImageGenerationInput \<Rightarrow> (string \<times> jsval) list" where
  "colorGuidedGenerationParams opts =
     [(''text'', opt_str (prompt opts)),
      (''negativeText'', opt_str (negativePrompt opts)),
      (''referenceImage'', opt_str (base64Image opts)),
      (''colors'', opt_strs (colorHexList opts))]"

definition requestBody :: "ImageGenerationInput \<Rightarrow> thrown + (string \<times> jsval) list" where
  "requestBody opts =
     (let t = taskType opts;
          envelope = [(''taskType'', Str t),
                      (''imageGenerationConfig'', Obj (imageGenerationConfig opts))]
      in if t = ''TEXT_IMAGE''
           then Inr (envelope @ [(''textToImageParams'', Obj (textToImageParams opts))])
         else if t = ''INPAINTING''
           then Inr (envelope @ [(''inPaintingParams'', Obj (inPaintingParams opts))])
         else if t = ''OUTPAINTING''
           then Inr (envelope @ [(''outPaintingParams'', Obj (outPaintingParams opts))])
         else if t = ''BACKGROUND_REMOVAL''
           then Inr (envelope @ [(''backgroundRemovalParams'', Obj (backgroundRemovalParams opts))])
         else if t = ''COLOR_GUIDED_GENERATION''
           then Inr (envelope
                     @ [(''colorGuidedGenerationParams'', Obj (colorGuidedGenerationParams opts))])
         else Inl (Error (Str (''Unsupported taskType: '' @ t))))"

section \<open>The method\<close>

text \<open>
  The constructor (lines 64 to 67): \<^verbatim>\<open>options.region || 'us-east-1'\<close>, and a client
  for that region. It throws what the construction of the client throws.
\<close>

definition new_BedrockImageManipulation ::
  "platform \<Rightarrow> string option \<Rightarrow> thrown + BedrockImageManipulation" where
  "new_BedrockImageManipulation pf r =
     (let reg = (case r of None \<Rightarrow> ''us-east-1''
                 | Some x \<Rightarrow> if truthy (Str x) then x else ''us-east-1'')
      in case new_BedrockRuntimeClient pf reg of
           Inl e \<Rightarrow> Inl e
         | Inr c \<Rightarrow> Inr \<lparr>bedrock = c, region = reg\<rparr>)"

text \<open>
  Lines 79 and 101 to 104: the region of the call is that of the instance when the caller
  gives none; the client is that of the instance when the two regions are equal, and a
  new one otherwise, whose construction can throw. This stands before the switch and
  outside the \<^verbatim>\<open>try\<close>.
\<close>

definition client_for ::
  "platform \<Rightarrow> BedrockImageManipulation \<Rightarrow> ImageGenerationInput
     \<Rightarrow> thrown + BedrockRuntimeClient" where
  "client_for pf this opts =
     (let reg = (case ImageGenerationInput.region opts of
                   None \<Rightarrow> BedrockImageManipulation.region this | Some r \<Rightarrow> r)
      in if reg = BedrockImageManipulation.region this then Inr (bedrock this)
         else new_BedrockRuntimeClient pf reg)"

text \<open>
  Lines 183 to 206, the body of the \<^verbatim>\<open>try\<close>: what the awaited \<^verbatim>\<open>client.send\<close>
  gave, then the checks in the order of the source. A value thrown anywhere in it is \<open>Inl\<close>.
\<close>

definition try_block :: "platform \<Rightarrow> send_outcome \<Rightarrow> string \<Rightarrow> thrown + ImageGenerationResult"
  where
  "try_block pf outcome mid =
     (case outcome of
        Rejects e \<Rightarrow> Inl e
      | Resolves None \<Rightarrow> Inl (Error (Str ''No response body received from model''))
      | Resolves (Some bytes) \<Rightarrow>
          (case JSON_parse pf (TextDecoder_decode pf bytes) of
             Inl e \<Rightarrow> Inl e
           | Inr responseBody \<Rightarrow>
               (case get_prop responseBody ''error'' of
                  Inl e \<Rightarrow> Inl e
                | Inr err \<Rightarrow>
                    if truthy err
                    then (case js_String pf err of
                            Inl e \<Rightarrow> Inl e
                          | Inr s \<Rightarrow> Inl (Error (Str (''Model error: '' @ s))))
                    else
                      (case get_prop responseBody ''images'' of
                         Inl e \<Rightarrow> Inl e
                       | Inr images \<Rightarrow>
                           if \<not> truthy images \<or> \<not> truthy (index0 images)
                           then Inl (Error (Str ''No image returned from model''))
                           else
                             (case Buffer_from pf (index0 images) of
                                Inl e \<Rightarrow> Inl e
                              | Inr bs \<Rightarrow>
                                  Inr \<lparr>imageBytes = bs, base64Image = index0 images,
                                       modelId = mid\<rparr>)))))"

text \<open>
  Lines 207 to 213, the \<^verbatim>\<open>catch\<close>: the message of an \<^verbatim>\<open>Error\<close>, and
  \<^verbatim>\<open>String(error)\<close> of any other value, put into the template literal, which converts
  it to a string. The conversion can throw; what it throws then leaves the \<^verbatim>\<open>catch\<close>
  in place of the new error.
\<close>

definition message_of :: "platform \<Rightarrow> thrown \<Rightarrow> thrown + string" where
  "message_of pf e = (case e of Error m \<Rightarrow> js_String pf m | NonError v \<Rightarrow> js_String pf v)"

definition catch_block :: "platform \<Rightarrow> thrown \<Rightarrow> thrown" where
  "catch_block pf e =
     (case message_of pf e of
        Inl t \<Rightarrow> t
      | Inr m \<Rightarrow> Error (Str (''Image generation failed: '' @ m)))"

text \<open>
  The method returns what the caller gets, \<open>Inl\<close> for a rejected promise, and the list of
  the calls of \<^verbatim>\<open>client.send\<close> it made, each with the client it was made on.
\<close>

definition generateImage ::
  "platform \<Rightarrow> BedrockImageManipulation \<Rightarrow> ImageGenerationInput
     \<Rightarrow> (thrown + ImageGenerationResult) \<times> (BedrockRuntimeClient \<times> InvokeModelCommand) list"
  where
  "generateImage pf this opts =
     (let mid = (case ImageGenerationInput.modelId opts of None \<Rightarrow> default_modelId | Some m \<Rightarrow> m)
      in case client_for pf this opts of
           Inl e \<Rightarrow> (Inl e, [])
         | Inr client \<Rightarrow>
             (case requestBody opts of
                Inl e \<Rightarrow> (Inl e, [])
              | Inr rb \<Rightarrow>
                  (let command = \<lparr>InvokeModelCommand.modelId = mid,
                                  body = JSON_stringify (Obj rb),
                                  contentType = ''application/json'',
                                  accept = ''application/json''\<rparr>
                   in (case try_block pf (send pf client command) mid of
                         Inl e \<Rightarrow> Inl (catch_block pf e)
                       | Inr r \<Rightarrow> Inr r,
                       [(client, command)]))))"

section \<open>What is observed, and sample data\<close>

text \<open>The five members of the union \<^verbatim>\<open>TaskType\<close> (lines 9 to 14).\<close>

definition TaskType :: "string list" where
  "TaskType =
     [''TEXT_IMAGE'', ''INPAINTING'', ''OUTPAINTING'', ''BACKGROUND_REMOVAL'',
      ''COLOR_GUIDED_GENERATION'']"

text \<open>
  The payload of a request is the document passed as \<^verbatim>\<open>body\<close> to the command
  (line 177); there is none when the switch throws.
\<close>

definition payload :: "ImageGenerationInput \<Rightarrow> json option" where
  "payload opts =
     (case requestBody opts of Inl e \<Rightarrow> None | Inr rb \<Rightarrow> JSON_stringify (Obj rb))"

text \<open>
  The generation-config block of the payload, and a member of one of its task sections.
\<close>

definition generation_config :: "ImageGenerationInput \<Rightarrow> json option" where
  "generation_config opts =
     Option.bind (payload opts) (\<lambda>doc. member doc ''imageGenerationConfig'')"

definition section_member :: "ImageGenerationInput \<Rightarrow> string \<Rightarrow> string \<Rightarrow> json option" where
  "section_member opts sec k =
     Option.bind (Option.bind (payload opts) (\<lambda>doc. member doc sec)) (\<lambda>s. member s k)"

text \<open>
  A platform for the examples: the remote answers every command with one fixed outcome,
  and \<^verbatim>\<open>JSON.parse\<close> gives one fixed result. The client constructor throws for the
  empty region, as the SDK's does. The conversion to a string is that of an object:
  \<^verbatim>\<open>[object Object]\<close>, and the \<^verbatim>\<open>TypeError\<close> when the object has a property
  \<^verbatim>\<open>toString\<close>, which is never callable in a parsed value.
\<close>

definition stub_String :: "jsval \<Rightarrow> thrown + string" where
  "stub_String v =
     (case v of
        Obj kvs \<Rightarrow>
          (if map_of kvs ''toString'' = None then Inr ''[object Object]''
           else Inl (Error (Str ''Cannot convert object to primitive value'')))
      | _ \<Rightarrow> Inr ''[object Object]'')"

definition stub_platform :: "send_outcome \<Rightarrow> thrown + jsval \<Rightarrow> platform" where
  "stub_platform outcome parsed =
     \<lparr>new_BedrockRuntimeClient =
        (\<lambda>reg. if reg = [] then Inl (Error (Str ''Region is missing''))
               else Inr (BedrockRuntimeClient reg)),
      send = (\<lambda>client command. outcome),
      TextDecoder_decode = map (\<lambda>b. char_of (unat b)),
      JSON_parse = (\<lambda>text. parsed),
      String_other = stub_String,
      Buffer_from_other = (\<lambda>v. Inl (Error (Str ''The first argument must be of type string'')))\<rparr>"

text \<open>The instance that \<^verbatim>\<open>new BedrockImageManipulation()\<close> gives on this platform.\<close>

definition us_east_1 :: BedrockImageManipulation where
  "us_east_1 = \<lparr>bedrock = BedrockRuntimeClient ''us-east-1'', region = ''us-east-1''\<rparr>"

text \<open>The request \<^verbatim>\<open>{ taskType: t, prompt: 'A cat' }\<close>.\<close>

definition request :: "string \<Rightarrow> ImageGenerationInput" where
  "request t =
     \<lparr>prompt = Some ''A cat'', modelId = None, region = None, taskType = t,
      imageConfig = None, base64Image = None, maskImage = None, maskPrompt = None,
      negativePrompt = None, outPaintingMode = None, conditionImage = None,
      controlMode = None, controlStrength = None, colorHexList = None\<rparr>"

section \<open>Evaluating the model\<close>

text \<open>The defining equations that run the model on a concrete input.\<close>

lemmas eval_payload =
  payload_def requestBody_def imageGenerationConfig_def imageConfig_of_def empty_imageConfig_def
  textToImageParams_def inPaintingParams_def outPaintingParams_def backgroundRemovalParams_def
  colorGuidedGenerationParams_def opt_str_def opt_num_def opt_strs_def request_def Let_def
  generation_config_def section_member_def TaskType_def

lemmas eval_call =
  generateImage_def client_for_def try_block_def catch_block_def message_of_def js_String_def
  Buffer_from_def stub_platform_def stub_String_def us_east_1_def default_modelId_def field_def

section \<open>Base64: decoding what was encoded\<close>

lemma less_64_cases:
  assumes "n < (64::nat)" and "\<And>k. k \<in> set [0..<64] \<Longrightarrow> P k"
  shows "P n"
  using assms by simp

lemma unbase64_table: "n < 64 \<Longrightarrow> unbase64 (base64_table ! n) = Some n"
  apply (erule less_64_cases)
  apply (simp add: upt_rec numeral_eq_Suc)
  apply (elim disjE)
  apply (simp_all add: base64_table_def unbase64_def)
  done

lemma table_not_pad: "n < 64 \<Longrightarrow> base64_table ! n \<noteq> CHR ''=''"
  apply (erule less_64_cases)
  apply (simp add: upt_rec numeral_eq_Suc)
  apply (elim disjE)
  apply (simp_all add: base64_table_def)
  done

lemma sextets_table: "n < 64 \<Longrightarrow> sextets (base64_table ! n # cs) = n # sextets cs"
  by (simp add: unbase64_table table_not_pad)

lemma sextets_pad: "sextets (CHR ''='' # cs) = []"
  by simp

lemma sextet_bounds:
  fixes a b c :: nat
  assumes "a < 256" "b < 256" "c < 256"
  shows "a div 4 < 64" "(a mod 4) * 16 + b div 16 < 64" "(b mod 16) * 4 + c div 64 < 64"
        "c mod 64 < 64" "(b mod 16) * 4 < 64" "(a mod 4) * 16 < 64"
  using assms by simp_all

lemma decode_group4:
  fixes a b c :: nat
  assumes "a < 256" "b < 256" "c < 256"
  shows "base64_decode_nat
           (a div 4 # ((a mod 4) * 16 + b div 16) # ((b mod 16) * 4 + c div 64) # c mod 64 # ss)
         = a # b # c # base64_decode_nat ss"
  using assms by simp

lemma decode_group3:
  fixes a b :: nat
  assumes "a < 256" "b < 256"
  shows "base64_decode_nat [a div 4, (a mod 4) * 16 + b div 16, (b mod 16) * 4] = [a, b]"
  using assms by simp

lemma decode_group2:
  fixes a :: nat
  assumes "a < 256"
  shows "base64_decode_nat [a div 4, (a mod 4) * 16] = [a]"
  using assms by simp

lemma decode_encode_nat:
  "\<forall>x \<in> set xs. x < 256 \<Longrightarrow> base64_decode_nat (sextets (base64_encode_nat xs)) = xs"
proof (induction xs rule: base64_encode_nat.induct)
  case (1 a b c rest)
  then have ab: "a < 256" "b < 256" "c < 256" and r: "\<forall>x \<in> set rest. x < 256"
    by simp_all
  have "sextets (base64_encode_nat (a # b # c # rest)) =
          a div 4 # ((a mod 4) * 16 + b div 16) # ((b mod 16) * 4 + c div 64) # c mod 64
            # sextets (base64_encode_nat rest)"
    by (simp add: sextets_table sextet_bounds[OF ab] del: sextets.simps)
  then show ?case
    using 1(1)[OF r] by (simp only: decode_group4[OF ab])
next
  case (2 a b)
  then have ab: "a < 256" "b < 256" by simp_all
  have "sextets (base64_encode_nat [a, b]) =
          [a div 4, (a mod 4) * 16 + b div 16, (b mod 16) * 4]"
    using sextet_bounds[OF ab ab(1)]
    by (simp add: sextets_table sextets_pad del: sextets.simps)
  then show ?case by (simp only: decode_group3[OF ab])
next
  case (3 a)
  then have ab: "a < 256" by simp
  have "sextets (base64_encode_nat [a]) = [a div 4, (a mod 4) * 16]"
    using sextet_bounds[OF ab ab ab]
    by (simp add: sextets_table sextets_pad del: sextets.simps)
  then show ?case by (simp only: decode_group2[OF ab])
next
  case 4
  show ?case by simp
qed

text \<open>
  Claim C8. For every byte sequence, encoding it to base64 and decoding the resulting
  string gives the byte sequence back.
\<close>

theorem base64_roundtrip: "base64_decode (base64_encode bs) = bs"
proof -
  have "\<forall>x \<in> set (map unat bs). x < 256"
  proof
    fix x assume "x \<in> set (map unat bs)"
    then obtain w :: byte where "x = unat w" by auto
    moreover have "unat w < 2 ^ LENGTH(8)" by (rule unsigned_less)
    ultimately show "x < 256" by simp
  qed
  then show ?thesis
    by (simp add: base64_decode_def base64_encode_def decode_encode_nat map_idI)
qed

theorem base64_roundtrip_witness:
  "base64_encode [72, 101, 108, 108, 111] = ''SGVsbG8=''
   \<and> base64_decode ''SGVsbG8='' = [72, 101, 108, 108, 111]"
proof -
  have enc: "base64_encode [72, 101, 108, 108, 111] = ''SGVsbG8=''"
    by (simp add: base64_encode_def base64_table_def)
  show ?thesis
    using base64_roundtrip [of "[72, 101, 108, 108, 111]"] by (simp only: enc simp_thms)
qed

section \<open>The payload\<close>

text \<open>
  A member of a serialised object is the serialised property of that name, when the
  object has no two properties of one name (none of the objects built here has).
\<close>

lemma stringify_opt_str: "JSON_stringify (opt_str s) = map_option JStr s"
  by (cases s) (simp_all add: opt_str_def)

lemma map_of_stringified:
  "distinct (map fst kvs) \<Longrightarrow>
   map_of (List.map_filter (\<lambda>(k, j). map_option (Pair k) j)
             (map (map_prod id JSON_stringify) kvs)) k
   = Option.bind (map_of kvs k) JSON_stringify"
proof (induction kvs)
  case Nil
  show ?case by (simp add: List.map_filter_simps)
next
  case (Cons kv kvs)
  obtain k' v where kv: "kv = (k', v)" by (cases kv)
  have notin: "k' \<notin> fst ` set kvs" and d: "distinct (map fst kvs)"
    using Cons.prems kv by simp_all
  show ?case
  proof (cases "JSON_stringify v")
    case None
    then show ?thesis
      using Cons.IH[OF d] notin kv
      by (auto simp add: List.map_filter_simps map_of_eq_None_iff[THEN iffD2])
  next
    case (Some j)
    then show ?thesis
      using Cons.IH[OF d] kv by (simp add: List.map_filter_simps)
  qed
qed

lemma member_stringified:
  assumes "distinct (map fst kvs)"
  shows "\<exists>blk. JSON_stringify (Obj kvs) = Some blk
           \<and> (\<forall>k. member blk k = Option.bind (map_of kvs k) JSON_stringify)"
  using map_of_stringified[OF assms] by simp

lemma generation_config_eq:
  assumes "taskType opts \<in> set TaskType"
  shows "generation_config opts = JSON_stringify (Obj (imageGenerationConfig opts))"
  using assms
  by (auto simp add: TaskType_def generation_config_def payload_def requestBody_def Let_def
        List.map_filter_simps)

lemma config_seed:
  "map_of (imageGenerationConfig opts) ''seed'' = map_option Num (seed (imageConfig_of opts))"
  by (cases "seed (imageConfig_of opts)") (simp_all add: imageGenerationConfig_def Let_def)

lemma config_distinct: "distinct (map fst (imageGenerationConfig opts))"
  by (cases "seed (imageConfig_of opts)") (simp_all add: imageGenerationConfig_def Let_def)

lemma config_width:
  "map_of (imageGenerationConfig opts) ''width'' =
     (case width (imageConfig_of opts) of
        None \<Rightarrow> Some (Num (Finite 1024))
      | Some w \<Rightarrow> if truthy_number w then Some (Num w) else None)"
  by (cases "seed (imageConfig_of opts)"; cases "width (imageConfig_of opts)")
     (simp_all add: imageGenerationConfig_def Let_def)

lemma config_height:
  "map_of (imageGenerationConfig opts) ''height'' =
     (case height (imageConfig_of opts) of
        None \<Rightarrow> Some (Num (Finite 1024))
      | Some h \<Rightarrow> if truthy_number h then Some (Num h) else None)"
  by (cases "seed (imageConfig_of opts)"; cases "width (imageConfig_of opts)";
      cases "height (imageConfig_of opts)")
     (simp_all add: imageGenerationConfig_def Let_def)

lemma section_INPAINTING:
  assumes "taskType opts = ''INPAINTING''"
  shows "section_member opts ''inPaintingParams'' k
           = Option.bind (map_of (inPaintingParams opts) k) JSON_stringify"
proof -
  have d: "distinct (map fst (inPaintingParams opts))"
    by (simp add: inPaintingParams_def)
  have "Option.bind (payload opts) (\<lambda>doc. member doc ''inPaintingParams'')
          = JSON_stringify (Obj (inPaintingParams opts))"
    using assms by (simp add: payload_def requestBody_def Let_def List.map_filter_simps)
  then show ?thesis
    by (simp add: section_member_def map_of_stringified[OF d])
qed

lemma section_OUTPAINTING:
  assumes "taskType opts = ''OUTPAINTING''"
  shows "section_member opts ''outPaintingParams'' k
           = Option.bind (map_of (outPaintingParams opts) k) JSON_stringify"
proof -
  have d: "distinct (map fst (outPaintingParams opts))"
    by (simp add: outPaintingParams_def)
  have "Option.bind (payload opts) (\<lambda>doc. member doc ''outPaintingParams'')
          = JSON_stringify (Obj (outPaintingParams opts))"
    using assms by (simp add: payload_def requestBody_def Let_def List.map_filter_simps)
  then show ?thesis
    by (simp add: section_member_def map_of_stringified[OF d])
qed

text \<open>
  Claim C4. For each of the five recognized task kinds the payload is an object of exactly
  three members: the task kind tag, the generation-config block, and the one task section
  named for that kind (\<^verbatim>\<open>textToImageParams\<close>, \<^verbatim>\<open>inPaintingParams\<close>,
  \<^verbatim>\<open>outPaintingParams\<close>, \<^verbatim>\<open>backgroundRemovalParams\<close>,
  \<^verbatim>\<open>colorGuidedGenerationParams\<close>), itself an object. None of the other four
  sections is there.
\<close>

theorem one_task_section:
  "(taskType opts = ''TEXT_IMAGE'' \<longrightarrow>
      (\<exists>cfg sec. payload opts =
         Some (JObj [(''taskType'', JStr ''TEXT_IMAGE''), (''imageGenerationConfig'', JObj cfg),
                     (''textToImageParams'', JObj sec)])))
   \<and> (taskType opts = ''INPAINTING'' \<longrightarrow>
      (\<exists>cfg sec. payload opts =
         Some (JObj [(''taskType'', JStr ''INPAINTING''), (''imageGenerationConfig'', JObj cfg),
                     (''inPaintingParams'', JObj sec)])))
   \<and> (taskType opts = ''OUTPAINTING'' \<longrightarrow>
      (\<exists>cfg sec. payload opts =
         Some (JObj [(''taskType'', JStr ''OUTPAINTING''), (''imageGenerationConfig'', JObj cfg),
                     (''outPaintingParams'', JObj sec)])))
   \<and> (taskType opts = ''BACKGROUND_REMOVAL'' \<longrightarrow>
      (\<exists>cfg sec. payload opts =
         Some (JObj [(''taskType'', JStr ''BACKGROUND_REMOVAL''), (''imageGenerationConfig'', JObj cfg),
                     (''backgroundRemovalParams'', JObj sec)])))
   \<and> (taskType opts = ''COLOR_GUIDED_GENERATION'' \<longrightarrow>
      (\<exists>cfg sec. payload opts =
         Some (JObj [(''taskType'', JStr ''COLOR_GUIDED_GENERATION''), (''imageGenerationConfig'', JObj cfg),
                     (''colorGuidedGenerationParams'', JObj sec)])))"
  by (simp add: payload_def requestBody_def Let_def List.map_filter_simps)

theorem one_task_section_witness:
  "taskType (request ''BACKGROUND_REMOVAL'') = ''BACKGROUND_REMOVAL''
   \<and> payload (request ''BACKGROUND_REMOVAL'') =
       Some (JObj [(''taskType'', JStr ''BACKGROUND_REMOVAL''),
                   (''imageGenerationConfig'',
                      JObj [(''numberOfImages'', JNum 1), (''quality'', JStr ''premium''),
                            (''cfgScale'', JNum 8), (''width'', JNum 1024),
                            (''height'', JNum 1024)]),
                   (''backgroundRemovalParams'', JObj [])])
   \<and> payload (request ''TEXT_IMAGE'') =
       Some (JObj [(''taskType'', JStr ''TEXT_IMAGE''),
                   (''imageGenerationConfig'',
                      JObj [(''numberOfImages'', JNum 1), (''quality'', JStr ''premium''),
                            (''cfgScale'', JNum 8), (''width'', JNum 1024),
                            (''height'', JNum 1024)]),
                   (''textToImageParams'', JObj [(''text'', JStr ''A cat'')])])"
  using one_task_section [of "request ''BACKGROUND_REMOVAL''"]
        one_task_section [of "request ''TEXT_IMAGE''"]
  by (simp add: eval_payload)

text \<open>
  Claim C1, amended. The claim says that an input omitting width, height and seed gives a
  block with none of the three keys. The destructuring gives an absent width and an absent
  height the default 1024, which is truthy, so both keys are written. What holds, for a
  recognized task kind: when the three are omitted the block has width 1024 and height
  1024 and no seed; when the three are supplied as finite numbers, width and height not
  zero, the block has all three with the supplied values.
\<close>

theorem generation_config_dimensions:
  assumes "taskType opts \<in> set TaskType"
  shows "\<exists>blk. generation_config opts = Some blk
           \<and> (width (imageConfig_of opts) = None \<and> height (imageConfig_of opts) = None
                \<and> seed (imageConfig_of opts) = None \<longrightarrow>
              member blk ''width'' = Some (JNum 1024) \<and> member blk ''height'' = Some (JNum 1024)
                \<and> member blk ''seed'' = None)
           \<and> (\<forall>w h s. width (imageConfig_of opts) = Some (Finite w)
                  \<and> height (imageConfig_of opts) = Some (Finite h)
                  \<and> seed (imageConfig_of opts) = Some (Finite s) \<and> w \<noteq> 0 \<and> h \<noteq> 0 \<longrightarrow>
              member blk ''width'' = Some (JNum w) \<and> member blk ''height'' = Some (JNum h)
                \<and> member blk ''seed'' = Some (JNum s))"
proof -
  obtain blk where blk: "JSON_stringify (Obj (imageGenerationConfig opts)) = Some blk"
    and mem: "\<And>k. member blk k = Option.bind (map_of (imageGenerationConfig opts) k) JSON_stringify"
    using member_stringified[OF config_distinct] by blast
  have "generation_config opts = Some blk"
    using generation_config_eq[OF assms] blk by simp
  moreover have "width (imageConfig_of opts) = None \<and> height (imageConfig_of opts) = None
                \<and> seed (imageConfig_of opts) = None \<longrightarrow>
              member blk ''width'' = Some (JNum 1024) \<and> member blk ''height'' = Some (JNum 1024)
                \<and> member blk ''seed'' = None"
    by (simp add: mem config_width config_height config_seed)
  moreover have "\<forall>w h s. width (imageConfig_of opts) = Some (Finite w)
                  \<and> height (imageConfig_of opts) = Some (Finite h)
                  \<and> seed (imageConfig_of opts) = Some (Finite s) \<and> w \<noteq> 0 \<and> h \<noteq> 0 \<longrightarrow>
              member blk ''width'' = Some (JNum w) \<and> member blk ''height'' = Some (JNum h)
                \<and> member blk ''seed'' = Some (JNum s)"
    by (simp add: mem config_width config_height config_seed)
  ultimately show ?thesis by blast
qed

theorem omitted_dimensions_counterexample:
  "imageConfig ((request ''TEXT_IMAGE'')
                  \<lparr>imageConfig := Some (empty_imageConfig \<lparr>quality := Some ''standard''\<rparr>)\<rparr>)
     = Some \<lparr>width = None, height = None, quality = Some ''standard'', cfgScale = None,
             seed = None, numberOfImages = None\<rparr>
   \<and> generation_config
        ((request ''TEXT_IMAGE'')
           \<lparr>imageConfig := Some (empty_imageConfig \<lparr>quality := Some ''standard''\<rparr>)\<rparr>) =
       Some (JObj [(''numberOfImages'', JNum 1), (''quality'', JStr ''standard''),
                   (''cfgScale'', JNum 8), (''width'', JNum 1024), (''height'', JNum 1024)])"
  by (simp add: eval_payload)

theorem generation_config_dimensions_witness:
  "taskType (request ''TEXT_IMAGE'') \<in> set TaskType
   \<and> generation_config (request ''TEXT_IMAGE'') =
       Some (JObj [(''numberOfImages'', JNum 1), (''quality'', JStr ''premium''),
                   (''cfgScale'', JNum 8), (''width'', JNum 1024), (''height'', JNum 1024)])
   \<and> generation_config
        ((request ''TEXT_IMAGE'')
           \<lparr>imageConfig := Some (empty_imageConfig
               \<lparr>width := Some (Finite 512), height := Some (Finite 256),
                seed := Some (Finite 100)\<rparr>)\<rparr>) =
       Some (JObj [(''numberOfImages'', JNum 1), (''quality'', JStr ''premium''),
                   (''cfgScale'', JNum 8), (''seed'', JNum 100), (''width'', JNum 512),
                   (''height'', JNum 256)])"
  using generation_config_dimensions [of "request ''TEXT_IMAGE''"]
        generation_config_dimensions
          [of "(request ''TEXT_IMAGE'')
                 \<lparr>imageConfig := Some (empty_imageConfig
                     \<lparr>width := Some (Finite 512), height := Some (Finite 256),
                      seed := Some (Finite 100)\<rparr>)\<rparr>"]
  by (simp add: eval_payload)

text \<open>
  Claim C10. A width or a height supplied as 0 is left out of the generation-config
  block, of the request object and of the payload, and a seed supplied as 0 is kept:
  width and height are tested for truthiness, the seed for being defined.
\<close>

theorem zero_dimension_omitted_zero_seed_kept:
  assumes "taskType opts \<in> set TaskType"
  shows "\<exists>blk. generation_config opts = Some blk
           \<and> (width (imageConfig_of opts) = Some (Finite 0) \<longrightarrow>
                map_of (imageGenerationConfig opts) ''width'' = None \<and> member blk ''width'' = None)
           \<and> (height (imageConfig_of opts) = Some (Finite 0) \<longrightarrow>
                map_of (imageGenerationConfig opts) ''height'' = None \<and> member blk ''height'' = None)
           \<and> (seed (imageConfig_of opts) = Some (Finite 0) \<longrightarrow>
                map_of (imageGenerationConfig opts) ''seed'' = Some (Num (Finite 0))
                \<and> member blk ''seed'' = Some (JNum 0))"
proof -
  obtain blk where blk: "JSON_stringify (Obj (imageGenerationConfig opts)) = Some blk"
    and mem: "\<And>k. member blk k = Option.bind (map_of (imageGenerationConfig opts) k) JSON_stringify"
    using member_stringified[OF config_distinct] by blast
  have "generation_config opts = Some blk"
    using generation_config_eq[OF assms] blk by simp
  moreover have "width (imageConfig_of opts) = Some (Finite 0) \<longrightarrow>
                map_of (imageGenerationConfig opts) ''width'' = None \<and> member blk ''width'' = None"
    by (simp add: mem config_width)
  moreover have "height (imageConfig_of opts) = Some (Finite 0) \<longrightarrow>
                map_of (imageGenerationConfig opts) ''height'' = None \<and> member blk ''height'' = None"
    by (simp add: mem config_height)
  moreover have "seed (imageConfig_of opts) = Some (Finite 0) \<longrightarrow>
                map_of (imageGenerationConfig opts) ''seed'' = Some (Num (Finite 0))
                \<and> member blk ''seed'' = Some (JNum 0)"
    by (simp add: mem config_seed)
  ultimately show ?thesis by blast
qed

theorem zero_dimension_omitted_zero_seed_kept_witness:
  "taskType (request ''TEXT_IMAGE'') \<in> set TaskType
   \<and> generation_config
        ((request ''TEXT_IMAGE'')
           \<lparr>imageConfig := Some (empty_imageConfig
               \<lparr>width := Some (Finite 0), height := Some (Finite 0),
                seed := Some (Finite 0)\<rparr>)\<rparr>) =
       Some (JObj [(''numberOfImages'', JNum 1), (''quality'', JStr ''premium''),
                   (''cfgScale'', JNum 8), (''seed'', JNum 0)])"
  using zero_dimension_omitted_zero_seed_kept
          [of "(request ''TEXT_IMAGE'')
                 \<lparr>imageConfig := Some (empty_imageConfig
                     \<lparr>width := Some (Finite 0), height := Some (Finite 0),
                      seed := Some (Finite 0)\<rparr>)\<rparr>"]
  by (simp add: eval_payload)

text \<open>
  Claim C3, amended. The claim says that maskPrompt and maskImage are never both set in the
  task section. The code neither rejects an input with both nor prefers one: each of the
  two keys of the section of an INPAINTING or OUTPAINTING payload is there exactly when
  the caller supplied it, with the string supplied. So at most one is set when the caller
  supplied at most one, and both are when the caller supplied both.
\<close>

theorem masks_passed_through:
  "(taskType opts = ''INPAINTING'' \<longrightarrow>
      section_member opts ''inPaintingParams'' ''maskImage'' = map_option JStr (maskImage opts)
      \<and> section_member opts ''inPaintingParams'' ''maskPrompt'' = map_option JStr (maskPrompt opts))
   \<and> (taskType opts = ''OUTPAINTING'' \<longrightarrow>
      section_member opts ''outPaintingParams'' ''maskImage'' = map_option JStr (maskImage opts)
      \<and> section_member opts ''outPaintingParams'' ''maskPrompt'' = map_option JStr (maskPrompt opts))"
proof -
  have "map_of (inPaintingParams opts) ''maskImage'' = Some (opt_str (maskImage opts))"
       "map_of (inPaintingParams opts) ''maskPrompt'' = Some (opt_str (maskPrompt opts))"
       "map_of (outPaintingParams opts) ''maskImage'' = Some (opt_str (maskImage opts))"
       "map_of (outPaintingParams opts) ''maskPrompt'' = Some (opt_str (maskPrompt opts))"
    by (simp_all add: inPaintingParams_def outPaintingParams_def)
  then show ?thesis
    by (simp add: section_INPAINTING section_OUTPAINTING stringify_opt_str)
qed

theorem both_masks_counterexample:
  "payload ((request ''INPAINTING'')
              \<lparr>base64Image := Some ''AAAA'', maskImage := Some ''BBBB'',
               maskPrompt := Some ''Tree''\<rparr>) =
     Some (JObj [(''taskType'', JStr ''INPAINTING''),
                 (''imageGenerationConfig'',
                    JObj [(''numberOfImages'', JNum 1), (''quality'', JStr ''premium''),
                          (''cfgScale'', JNum 8), (''width'', JNum 1024),
                          (''height'', JNum 1024)]),
                 (''inPaintingParams'',
                    JObj [(''image'', JStr ''AAAA''), (''maskImage'', JStr ''BBBB''),
                          (''maskPrompt'', JStr ''Tree''), (''text'', JStr ''A cat'')])])
   \<and> fst (generateImage
            (stub_platform (Resolves (Some [])) (Inr (Obj [(''images'', Arr [Str ''QUJD''])])))
            us_east_1
            ((request ''INPAINTING'')
               \<lparr>base64Image := Some ''AAAA'', maskImage := Some ''BBBB'',
                maskPrompt := Some ''Tree''\<rparr>)) =
     Inr \<lparr>imageBytes = [65, 66, 67], base64Image = Str ''QUJD'',
           modelId = ''amazon.nova-canvas-v1:0''\<rparr>"
proof -
  have dec: "base64_decode ''QUJD'' = [65, 66, 67]"
    by (simp add: base64_decode_def unbase64_def)
  show ?thesis
    by (simp add: eval_payload eval_call dec)
qed

theorem masks_passed_through_witness:
  "taskType ((request ''INPAINTING'') \<lparr>maskPrompt := Some ''Tree''\<rparr>) = ''INPAINTING''
   \<and> section_member ((request ''INPAINTING'') \<lparr>maskPrompt := Some ''Tree''\<rparr>)
        ''inPaintingParams'' ''maskImage'' = None
   \<and> section_member ((request ''INPAINTING'') \<lparr>maskPrompt := Some ''Tree''\<rparr>)
        ''inPaintingParams'' ''maskPrompt'' = Some (JStr ''Tree'')
   \<and> section_member ((request ''OUTPAINTING'') \<lparr>maskImage := Some ''BBBB''\<rparr>)
        ''outPaintingParams'' ''maskImage'' = Some (JStr ''BBBB'')
   \<and> section_member ((request ''OUTPAINTING'') \<lparr>maskImage := Some ''BBBB''\<rparr>)
        ''outPaintingParams'' ''maskPrompt'' = None"
  using masks_passed_through [of "(request ''INPAINTING'') \<lparr>maskPrompt := Some ''Tree''\<rparr>"]
        masks_passed_through [of "(request ''OUTPAINTING'') \<lparr>maskImage := Some ''BBBB''\<rparr>"]
  by (simp add: request_def)

section \<open>The call\<close>

lemma decode_QUJD: "base64_decode ''QUJD'' = [65, 66, 67]"
  by (simp add: base64_decode_def unbase64_def)

lemma generateImage_no_client:
  assumes "client_for pf this opts = Inl e"
  shows "generateImage pf this opts = (Inl e, [])"
  using assms by (simp add: generateImage_def Let_def)

lemma generateImage_unsupported:
  assumes "client_for pf this opts = Inr client" and "taskType opts \<notin> set TaskType"
  shows "generateImage pf this opts
           = (Inl (Error (Str (''Unsupported taskType: '' @ taskType opts))), [])"
  using assms by (simp add: generateImage_def requestBody_def TaskType_def Let_def)

lemma generateImage_sent:
  assumes "snd (generateImage pf this opts) = [(client, command)]"
  shows "fst (generateImage pf this opts)
           = (case try_block pf (send pf client command) (InvokeModelCommand.modelId command) of
                Inl e \<Rightarrow> Inl (catch_block pf e)
              | Inr r \<Rightarrow> Inr r)"
    and "InvokeModelCommand.modelId command
           = (case ImageGenerationInput.modelId opts of None \<Rightarrow> default_modelId | Some m \<Rightarrow> m)"
    and "body command = payload opts"
    and "client_for pf this opts = Inr client"
proof -
  obtain c where c: "client_for pf this opts = Inr c"
    using assms by (cases "client_for pf this opts") (simp_all add: generateImage_def Let_def)
  obtain rb where rb: "requestBody opts = Inr rb"
    using assms c by (cases "requestBody opts") (simp_all add: generateImage_def Let_def)
  define mid where
    "mid = (case ImageGenerationInput.modelId opts of None \<Rightarrow> default_modelId | Some m \<Rightarrow> m)"
  define cmd where
    "cmd = \<lparr>InvokeModelCommand.modelId = mid, body = JSON_stringify (Obj rb),
            contentType = ''application/json'', accept = ''application/json''\<rparr>"
  have g: "generateImage pf this opts =
      (case try_block pf (send pf c cmd) mid of Inl e \<Rightarrow> Inl (catch_block pf e) | Inr r \<Rightarrow> Inr r,
       [(c, cmd)])"
    by (simp add: generateImage_def Let_def c rb mid_def cmd_def)
  from assms g have eq: "client = c" "command = cmd" by simp_all
  show "fst (generateImage pf this opts)
           = (case try_block pf (send pf client command) (InvokeModelCommand.modelId command) of
                Inl e \<Rightarrow> Inl (catch_block pf e)
              | Inr r \<Rightarrow> Inr r)"
    by (simp add: g eq cmd_def)
  show "InvokeModelCommand.modelId command
           = (case ImageGenerationInput.modelId opts of None \<Rightarrow> default_modelId | Some m \<Rightarrow> m)"
    by (simp add: eq cmd_def mid_def)
  show "body command = payload opts"
    by (simp add: eq cmd_def payload_def rb)
  show "client_for pf this opts = Inr client"
    by (simp add: c eq)
qed

lemma recognized_sends:
  assumes "taskType opts \<in> set TaskType" and "client_for pf this opts = Inr client"
  shows "\<exists>command. snd (generateImage pf this opts) = [(client, command)]"
proof -
  obtain rb where "requestBody opts = Inr rb"
    using assms(1) by (auto simp add: TaskType_def requestBody_def Let_def)
  then show ?thesis by (simp add: generateImage_def Let_def assms(2))
qed

lemma stub_client:
  "client_for (stub_platform outcome parsed) us_east_1 (request t)
     = Inr (BedrockRuntimeClient ''us-east-1'')"
  by (simp add: client_for_def stub_platform_def us_east_1_def request_def)

lemma stub_instance:
  "new_BedrockImageManipulation (stub_platform outcome parsed) None = Inr us_east_1"
  by (simp add: new_BedrockImageManipulation_def stub_platform_def us_east_1_def Let_def)

lemma try_block_object:
  assumes "outcome = Resolves (Some bytes)"
    and "JSON_parse pf (TextDecoder_decode pf bytes) = Inr (Obj kvs)"
  shows "try_block pf outcome mid =
           (if truthy (field kvs ''error'')
            then (case js_String pf (field kvs ''error'') of
                    Inl e \<Rightarrow> Inl e
                  | Inr s \<Rightarrow> Inl (Error (Str (''Model error: '' @ s))))
            else if \<not> truthy (field kvs ''images'') \<or> \<not> truthy (index0 (field kvs ''images''))
            then Inl (Error (Str ''No image returned from model''))
            else (case Buffer_from pf (index0 (field kvs ''images'')) of
                    Inl e \<Rightarrow> Inl e
                  | Inr bs \<Rightarrow> Inr \<lparr>imageBytes = bs, base64Image = index0 (field kvs ''images''),
                                   modelId = mid\<rparr>))"
  using assms by (simp add: try_block_def)

lemma try_block_value:
  assumes "outcome = Resolves (Some bytes)"
    and "JSON_parse pf (TextDecoder_decode pf bytes) = Inr v"
    and "get_prop v ''error'' = Inr err"
  shows "truthy err \<Longrightarrow> js_String pf err = Inr s \<Longrightarrow>
           try_block pf outcome mid = Inl (Error (Str (''Model error: '' @ s)))"
    and "truthy err \<Longrightarrow> js_String pf err = Inl t \<Longrightarrow> try_block pf outcome mid = Inl t"
    and "\<not> truthy err \<Longrightarrow> get_prop v ''images'' = Inr images \<Longrightarrow>
           \<not> truthy images \<or> \<not> truthy (index0 images) \<Longrightarrow>
           try_block pf outcome mid = Inl (Error (Str ''No image returned from model''))"
  using assms by (simp_all add: try_block_def)

lemma catch_Error:
  "catch_block pf (Error (Str m)) = Error (Str (''Image generation failed: '' @ m))"
  by (simp add: catch_block_def message_of_def js_String_def)

lemma first_image_success:
  assumes "snd (generateImage pf this opts) = [(client, command)]"
    and "send pf client command = Resolves (Some bytes)"
    and "JSON_parse pf (TextDecoder_decode pf bytes) = Inr (Obj kvs)"
    and "field kvs ''images'' = Arr (Str s # rest)"
    and "\<not> truthy (field kvs ''error'')" and "s \<noteq> []"
  shows "fst (generateImage pf this opts)
           = Inr \<lparr>imageBytes = base64_decode s, base64Image = Str s,
                  modelId = (case ImageGenerationInput.modelId opts of
                               None \<Rightarrow> default_modelId | Some m \<Rightarrow> m)\<rparr>"
  using assms(5,6) generateImage_sent(2)[OF assms(1)]
  unfolding generateImage_sent(1)[OF assms(1)] try_block_object[OF assms(2,3)] assms(4)
  by (simp add: Buffer_from_def)

lemma client_for_same:
  assumes "ImageGenerationInput.region opts = None
           \<or> ImageGenerationInput.region opts = Some (BedrockImageManipulation.region this)"
  shows "client_for pf this opts = Inr (bedrock this)"
  using assms by (auto simp add: client_for_def)

lemma client_for_other:
  assumes "ImageGenerationInput.region opts = Some r"
    and "r \<noteq> BedrockImageManipulation.region this"
  shows "client_for pf this opts = new_BedrockRuntimeClient pf r"
  using assms by (simp add: client_for_def)

lemma catch_NonError:
  "js_String pf v = Inr s \<Longrightarrow>
     catch_block pf (NonError v) = Error (Str (''Image generation failed: '' @ s))"
  "js_String pf v = Inl t \<Longrightarrow> catch_block pf (NonError v) = t"
  by (simp_all add: catch_block_def message_of_def)

lemma wrapped_after_send:
  assumes sent: "snd (generateImage pf this opts) = [(c, command)]"
  shows "(\<forall>m. send pf c command = Rejects (Error (Str m)) \<longrightarrow>
            fst (generateImage pf this opts) = Inl (Error (Str (''Image generation failed: '' @ m))))
       \<and> (\<forall>v s. send pf c command = Rejects (NonError v) \<and> js_String pf v = Inr s \<longrightarrow>
            fst (generateImage pf this opts) = Inl (Error (Str (''Image generation failed: '' @ s))))
       \<and> (\<forall>v t. send pf c command = Rejects (NonError v) \<and> js_String pf v = Inl t \<longrightarrow>
            fst (generateImage pf this opts) = Inl t)
       \<and> (send pf c command = Resolves None \<longrightarrow>
            fst (generateImage pf this opts)
              = Inl (Error (Str ''Image generation failed: No response body received from model'')))
       \<and> (\<forall>bytes m. send pf c command = Resolves (Some bytes)
              \<and> JSON_parse pf (TextDecoder_decode pf bytes) = Inl (Error (Str m)) \<longrightarrow>
            fst (generateImage pf this opts) = Inl (Error (Str (''Image generation failed: '' @ m))))
       \<and> (\<forall>bytes v err s. send pf c command = Resolves (Some bytes)
              \<and> JSON_parse pf (TextDecoder_decode pf bytes) = Inr v
              \<and> get_prop v ''error'' = Inr err \<and> truthy err \<and> js_String pf err = Inr s \<longrightarrow>
            fst (generateImage pf this opts)
              = Inl (Error (Str (''Image generation failed: Model error: '' @ s))))
       \<and> (\<forall>bytes v err images. send pf c command = Resolves (Some bytes)
              \<and> JSON_parse pf (TextDecoder_decode pf bytes) = Inr v
              \<and> get_prop v ''error'' = Inr err \<and> \<not> truthy err
              \<and> get_prop v ''images'' = Inr images
              \<and> (\<not> truthy images \<or> \<not> truthy (index0 images)) \<longrightarrow>
            fst (generateImage pf this opts)
              = Inl (Error (Str ''Image generation failed: No image returned from model'')))
       \<and> (\<forall>e. fst (generateImage pf this opts) = Inl e \<longrightarrow>
            (\<exists>inner. try_block pf (send pf c command) (InvokeModelCommand.modelId command)
                        = Inl inner
                     \<and> (case message_of pf inner of
                          Inl t \<Rightarrow> e = t
                        | Inr m \<Rightarrow> e = Error (Str (''Image generation failed: '' @ m)))))"
proof -
  note fst_eq = generateImage_sent(1)[OF sent]
  have a: "\<forall>m. send pf c command = Rejects (Error (Str m)) \<longrightarrow>
            fst (generateImage pf this opts) = Inl (Error (Str (''Image generation failed: '' @ m)))"
    by (simp add: fst_eq try_block_def catch_Error)
  have a2: "\<forall>v s. send pf c command = Rejects (NonError v) \<and> js_String pf v = Inr s \<longrightarrow>
            fst (generateImage pf this opts) = Inl (Error (Str (''Image generation failed: '' @ s)))"
    by (simp add: fst_eq try_block_def catch_NonError)
  have a3: "\<forall>v t. send pf c command = Rejects (NonError v) \<and> js_String pf v = Inl t \<longrightarrow>
            fst (generateImage pf this opts) = Inl t"
    by (simp add: fst_eq try_block_def catch_NonError)
  have b: "send pf c command = Resolves None \<longrightarrow>
            fst (generateImage pf this opts)
              = Inl (Error (Str ''Image generation failed: No response body received from model''))"
    by (simp add: fst_eq try_block_def catch_Error)
  have p: "\<forall>bytes m. send pf c command = Resolves (Some bytes)
              \<and> JSON_parse pf (TextDecoder_decode pf bytes) = Inl (Error (Str m)) \<longrightarrow>
            fst (generateImage pf this opts) = Inl (Error (Str (''Image generation failed: '' @ m)))"
    by (simp add: fst_eq try_block_def catch_Error)
  have d: "\<forall>bytes v err s. send pf c command = Resolves (Some bytes)
              \<and> JSON_parse pf (TextDecoder_decode pf bytes) = Inr v
              \<and> get_prop v ''error'' = Inr err \<and> truthy err \<and> js_String pf err = Inr s \<longrightarrow>
            fst (generateImage pf this opts)
              = Inl (Error (Str (''Image generation failed: Model error: '' @ s)))"
    by (simp add: fst_eq try_block_value(1) catch_Error)
  have e: "\<forall>bytes v err images. send pf c command = Resolves (Some bytes)
              \<and> JSON_parse pf (TextDecoder_decode pf bytes) = Inr v
              \<and> get_prop v ''error'' = Inr err \<and> \<not> truthy err
              \<and> get_prop v ''images'' = Inr images
              \<and> (\<not> truthy images \<or> \<not> truthy (index0 images)) \<longrightarrow>
            fst (generateImage pf this opts)
              = Inl (Error (Str ''Image generation failed: No image returned from model''))"
    by (auto simp add: fst_eq try_block_value(3) catch_Error)
  have f: "\<forall>e. fst (generateImage pf this opts) = Inl e \<longrightarrow>
            (\<exists>inner. try_block pf (send pf c command) (InvokeModelCommand.modelId command)
                        = Inl inner
                     \<and> (case message_of pf inner of
                          Inl t \<Rightarrow> e = t
                        | Inr m \<Rightarrow> e = Error (Str (''Image generation failed: '' @ m))))"
    by (auto simp add: fst_eq catch_block_def split: sum.splits)
  from a a2 a3 b p d e f show ?thesis by blast
qed

lemma stub_sends:
  assumes "t \<in> set TaskType"
  shows "\<exists>command. snd (generateImage (stub_platform outcome parsed) us_east_1 (request t))
                      = [(BedrockRuntimeClient ''us-east-1'', command)]"
proof -
  have "taskType (request t) \<in> set TaskType"
    using assms by (simp add: request_def)
  then show ?thesis
    using recognized_sends stub_client by blast
qed

lemma stub_replies:
  "send (stub_platform outcome parsed) c command = outcome"
  "JSON_parse (stub_platform outcome parsed) text = parsed"
  by (simp_all add: stub_platform_def)

lemma TEXT_IMAGE_recognized: "''TEXT_IMAGE'' \<in> set TaskType"
  by (simp add: TaskType_def)

section \<open>The response\<close>






text \<open>
  Claim C6, amended. The claim says that every response object with an \<^verbatim>\<open>error\<close> field
  fails with the remote error. The field is tested for truthiness, so an \<^verbatim>\<open>error\<close>
  that is \<^verbatim>\<open>null\<close>, empty, zero or false is no error. What holds, for a response that
  parses to an object: a truthy \<^verbatim>\<open>error\<close> whose conversion to a string succeeds, as
  that of a string always does, gives the failure
  \<^verbatim>\<open>Image generation failed: Model error: \<close> followed by that string (the error itself
  when it is a string); when the conversion throws an \<^verbatim>\<open>Error\<close>, the failure is
  \<^verbatim>\<open>Image generation failed: \<close> followed by the message of what it threw; with no
  truthy \<^verbatim>\<open>error\<close>, an \<^verbatim>\<open>images\<close> that is absent or falsy or whose first element is
  absent or falsy (as in \<^verbatim>\<open>{ images: [] }\<close>) gives
  \<^verbatim>\<open>Image generation failed: No image returned from model\<close>. All are plain errors
  that differ in their message only.
\<close>

theorem remote_error_and_empty_result:
  assumes "snd (generateImage pf this opts) = [(client, command)]"
    and "send pf client command = Resolves (Some bytes)"
    and "JSON_parse pf (TextDecoder_decode pf bytes) = Inr (Obj kvs)"
  shows "(\<forall>s. truthy (field kvs ''error'') \<and> js_String pf (field kvs ''error'') = Inr s \<longrightarrow>
            fst (generateImage pf this opts) =
              Inl (Error (Str (''Image generation failed: Model error: '' @ s))))
       \<and> (\<forall>x. field kvs ''error'' = Str x \<and> x \<noteq> [] \<longrightarrow>
            fst (generateImage pf this opts) =
              Inl (Error (Str (''Image generation failed: Model error: '' @ x))))
       \<and> (\<forall>m. truthy (field kvs ''error'') \<and> js_String pf (field kvs ''error'') = Inl (Error (Str m)) \<longrightarrow>
            fst (generateImage pf this opts) = Inl (Error (Str (''Image generation failed: '' @ m))))
       \<and> (\<not> truthy (field kvs ''error'')
            \<and> (\<not> truthy (field kvs ''images'') \<or> \<not> truthy (index0 (field kvs ''images''))) \<longrightarrow>
            fst (generateImage pf this opts) =
              Inl (Error (Str ''Image generation failed: No image returned from model'')))"
  unfolding generateImage_sent(1)[OF assms(1)] try_block_object[OF assms(2,3)]
  by (auto simp add: catch_Error js_String_def)

theorem falsy_error_counterexample:
  "fst (generateImage
          (stub_platform (Resolves (Some []))
             (Inr (Obj [(''error'', Null), (''images'', Arr [Str ''QUJD''])])))
          us_east_1 (request ''TEXT_IMAGE''))
     = Inr \<lparr>imageBytes = [65, 66, 67], base64Image = Str ''QUJD'',
             modelId = ''amazon.nova-canvas-v1:0''\<rparr>
   \<and> fst (generateImage
          (stub_platform (Resolves (Some [])) (Inr (Obj [(''error'', Str '''')])))
          us_east_1 (request ''TEXT_IMAGE''))
     = Inl (Error (Str ''Image generation failed: No image returned from model''))"
  by (simp add: eval_payload eval_call decode_QUJD)

theorem remote_error_and_empty_result_witness:
  "fst (generateImage
          (stub_platform (Resolves (Some [])) (Inr (Obj [(''error'', Str ''x'')])))
          us_east_1 (request ''TEXT_IMAGE''))
     = Inl (Error (Str ''Image generation failed: Model error: x''))
   \<and> fst (generateImage
          (stub_platform (Resolves (Some [])) (Inr (Obj [(''images'', Arr [])])))
          us_east_1 (request ''TEXT_IMAGE''))
     = Inl (Error (Str ''Image generation failed: No image returned from model''))
   \<and> fst (generateImage
          (stub_platform (Resolves (Some []))
             (Inr (Obj [(''error'', Obj [(''toString'', Num (Finite 1))])])))
          us_east_1 (request ''TEXT_IMAGE''))
     = Inl (Error (Str ''Image generation failed: Cannot convert object to primitive value''))"
proof -
  define pf1 where "pf1 = stub_platform (Resolves (Some [])) (Inr (Obj [(''error'', Str ''x'')]))"
  define pf2 where "pf2 = stub_platform (Resolves (Some [])) (Inr (Obj [(''images'', Arr [])]))"
  define pf3 where
    "pf3 = stub_platform (Resolves (Some []))
             (Inr (Obj [(''error'', Obj [(''toString'', Num (Finite 1))])]))"
  obtain cmd1 where
    sent1: "snd (generateImage pf1 us_east_1 (request ''TEXT_IMAGE''))
              = [(BedrockRuntimeClient ''us-east-1'', cmd1)]"
    unfolding pf1_def using stub_sends[OF TEXT_IMAGE_recognized] by blast
  obtain cmd2 where
    sent2: "snd (generateImage pf2 us_east_1 (request ''TEXT_IMAGE''))
              = [(BedrockRuntimeClient ''us-east-1'', cmd2)]"
    unfolding pf2_def using stub_sends[OF TEXT_IMAGE_recognized] by blast
  obtain cmd3 where
    sent3: "snd (generateImage pf3 us_east_1 (request ''TEXT_IMAGE''))
              = [(BedrockRuntimeClient ''us-east-1'', cmd3)]"
    unfolding pf3_def using stub_sends[OF TEXT_IMAGE_recognized] by blast
  have resp1: "send pf1 (BedrockRuntimeClient ''us-east-1'') cmd1 = Resolves (Some [])"
    and parsed1: "JSON_parse pf1 (TextDecoder_decode pf1 []) = Inr (Obj [(''error'', Str ''x'')])"
    by (simp_all add: pf1_def stub_replies)
  have resp2: "send pf2 (BedrockRuntimeClient ''us-east-1'') cmd2 = Resolves (Some [])"
    and parsed2: "JSON_parse pf2 (TextDecoder_decode pf2 []) = Inr (Obj [(''images'', Arr [])])"
    by (simp_all add: pf2_def stub_replies)
  have resp3: "send pf3 (BedrockRuntimeClient ''us-east-1'') cmd3 = Resolves (Some [])"
    and parsed3: "JSON_parse pf3 (TextDecoder_decode pf3 [])
                    = Inr (Obj [(''error'', Obj [(''toString'', Num (Finite 1))])])"
    by (simp_all add: pf3_def stub_replies)
  have str3: "js_String pf3 (Obj [(''toString'', Num (Finite 1))])
                = Inl (Error (Str ''Cannot convert object to primitive value''))"
    by (simp add: js_String_def pf3_def stub_platform_def stub_String_def)
  from remote_error_and_empty_result [OF sent1 resp1 parsed1]
  have "fst (generateImage pf1 us_east_1 (request ''TEXT_IMAGE''))
          = Inl (Error (Str ''Image generation failed: Model error: x''))"
    by (simp add: field_def)
  moreover from remote_error_and_empty_result [OF sent2 resp2 parsed2]
  have "fst (generateImage pf2 us_east_1 (request ''TEXT_IMAGE''))
          = Inl (Error (Str ''Image generation failed: No image returned from model''))"
    by (simp add: field_def)
  moreover from remote_error_and_empty_result [OF sent3 resp3 parsed3] str3
  have "fst (generateImage pf3 us_east_1 (request ''TEXT_IMAGE''))
          = Inl (Error (Str ''Image generation failed: Cannot convert object to primitive value''))"
    by (simp add: field_def)
  ultimately show ?thesis
    by (simp add: pf1_def pf2_def pf3_def)
qed

section \<open>An unsupported task kind\<close>

text \<open>
  Claim C7, amended. The claim says that every input with an unrecognized \<^verbatim>\<open>taskType\<close>
  fails with the error of the \<^verbatim>\<open>default\<close> branch. The client of the call is made
  before the switch (lines 101 to 104): when the caller names a region other than the
  instance's and the constructor throws for it, as it does for the empty region, that
  error reaches the caller instead. What holds, for every input with an unrecognized
  \<^verbatim>\<open>taskType\<close>: \<^verbatim>\<open>client.send\<close> is never called (the list of commands sent is
  empty); the failure is \<^verbatim>\<open>Unsupported taskType: ...\<close> when the caller names no region
  or the instance's, or a region for which the constructor gives a client; and it is
  what the constructor throws otherwise.
\<close>

theorem unsupported_taskType_no_send:
  assumes "taskType opts \<notin> set TaskType"
  shows "snd (generateImage pf this opts) = []
       \<and> (ImageGenerationInput.region opts = None
            \<or> ImageGenerationInput.region opts = Some (BedrockImageManipulation.region this) \<longrightarrow>
          fst (generateImage pf this opts)
            = Inl (Error (Str (''Unsupported taskType: '' @ taskType opts))))
       \<and> (\<forall>r c. ImageGenerationInput.region opts = Some r
              \<and> r \<noteq> BedrockImageManipulation.region this
              \<and> new_BedrockRuntimeClient pf r = Inr c \<longrightarrow>
          fst (generateImage pf this opts)
            = Inl (Error (Str (''Unsupported taskType: '' @ taskType opts))))
       \<and> (\<forall>r e. ImageGenerationInput.region opts = Some r
              \<and> r \<noteq> BedrockImageManipulation.region this
              \<and> new_BedrockRuntimeClient pf r = Inl e \<longrightarrow>
          fst (generateImage pf this opts) = Inl e)"
proof (intro conjI allI impI)
  show "snd (generateImage pf this opts) = []"
    by (cases "client_for pf this opts")
       (simp_all add: generateImage_no_client generateImage_unsupported[OF _ assms])
next
  assume "ImageGenerationInput.region opts = None
          \<or> ImageGenerationInput.region opts = Some (BedrockImageManipulation.region this)"
  then show "fst (generateImage pf this opts)
               = Inl (Error (Str (''Unsupported taskType: '' @ taskType opts)))"
    by (simp add: generateImage_unsupported[OF client_for_same assms])
next
  fix r c
  assume "ImageGenerationInput.region opts = Some r
          \<and> r \<noteq> BedrockImageManipulation.region this
          \<and> new_BedrockRuntimeClient pf r = Inr c"
  then have "client_for pf this opts = Inr c"
    by (simp add: client_for_other)
  then show "fst (generateImage pf this opts)
               = Inl (Error (Str (''Unsupported taskType: '' @ taskType opts)))"
    by (simp add: generateImage_unsupported[OF _ assms])
next
  fix r e
  assume "ImageGenerationInput.region opts = Some r
          \<and> r \<noteq> BedrockImageManipulation.region this
          \<and> new_BedrockRuntimeClient pf r = Inl e"
  then have "client_for pf this opts = Inl e"
    by (simp add: client_for_other)
  then show "fst (generateImage pf this opts) = Inl e"
    by (simp add: generateImage_no_client)
qed

theorem region_missing_counterexample:
  "taskType ((request ''BOGUS'') \<lparr>region := Some ''''\<rparr>) \<notin> set TaskType
   \<and> generateImage
        (stub_platform (Resolves (Some [])) (Inr (Obj [(''images'', Arr [Str ''QUJD''])])))
        us_east_1 ((request ''BOGUS'') \<lparr>region := Some ''''\<rparr>)
     = (Inl (Error (Str ''Region is missing'')), [])"
  by (simp add: eval_payload eval_call)

theorem unsupported_taskType_no_send_witness:
  "''BOGUS'' \<notin> set TaskType
   \<and> generateImage
        (stub_platform (Resolves (Some [])) (Inr (Obj [(''images'', Arr [Str ''QUJD''])])))
        us_east_1 (request ''BOGUS'')
     = (Inl (Error (Str ''Unsupported taskType: BOGUS'')), [])
   \<and> generateImage
        (stub_platform (Resolves (Some [])) (Inr (Obj [(''images'', Arr [Str ''QUJD''])])))
        us_east_1 ((request ''BOGUS'') \<lparr>region := Some ''eu-west-1''\<rparr>)
     = (Inl (Error (Str ''Unsupported taskType: BOGUS'')), [])"
proof -
  define pf where
    "pf = stub_platform (Resolves (Some [])) (Inr (Obj [(''images'', Arr [Str ''QUJD''])]))"
  have h1: "taskType (request ''BOGUS'') \<notin> set TaskType"
    and h2: "taskType ((request ''BOGUS'') \<lparr>region := Some ''eu-west-1''\<rparr>) \<notin> set TaskType"
    by (simp_all add: request_def TaskType_def)
  have r1: "ImageGenerationInput.region (request ''BOGUS'') = None"
    by (simp add: request_def)
  have r2: "ImageGenerationInput.region ((request ''BOGUS'') \<lparr>region := Some ''eu-west-1''\<rparr>)
              = Some ''eu-west-1''
            \<and> ''eu-west-1'' \<noteq> BedrockImageManipulation.region us_east_1
            \<and> new_BedrockRuntimeClient pf ''eu-west-1'' = Inr (BedrockRuntimeClient ''eu-west-1'')"
    by (simp add: request_def us_east_1_def pf_def stub_platform_def)
  from unsupported_taskType_no_send [OF h1, of pf us_east_1] r1
  have a: "generateImage pf us_east_1 (request ''BOGUS'')
             = (Inl (Error (Str (''Unsupported taskType: '' @ taskType (request ''BOGUS'')))), [])"
    by (simp add: prod_eq_iff)
  from unsupported_taskType_no_send [OF h2, of pf us_east_1] r2
  have b: "generateImage pf us_east_1 ((request ''BOGUS'') \<lparr>region := Some ''eu-west-1''\<rparr>)
             = (Inl (Error (Str (''Unsupported taskType: ''
                  @ taskType ((request ''BOGUS'') \<lparr>region := Some ''eu-west-1''\<rparr>)))), [])"
    by (simp add: prod_eq_iff)
  show ?thesis
    using a b h1 by (simp add: pf_def request_def)
qed

section \<open>What the \<^verbatim>\<open>catch\<close> wraps\<close>

text \<open>
  Claim C2, amended. The claim says that every error of the operation reaches the caller
  wrapped by the \<^verbatim>\<open>catch\<close>. Two errors are thrown before the \<^verbatim>\<open>try\<close> and reach
  the caller as they are, with nothing sent: what the constructor of the client throws
  (lines 101 to 104), and \<^verbatim>\<open>Unsupported taskType: ...\<close> of the switch. And the
  \<^verbatim>\<open>catch\<close> itself throws when the value caught is not an \<^verbatim>\<open>Error\<close> and its
  conversion to a string throws. What holds: with a client and a recognized task kind,
  one command is sent, and every failure from there on (the send rejected, no response
  body, the parse failing, the remote error, no image, or anything else thrown in the
  \<^verbatim>\<open>try\<close>) reaches the caller as one error whose message is
  \<^verbatim>\<open>Image generation failed: \<close> followed by the message of the \<^verbatim>\<open>Error\<close> thrown, or
  by the string form of any other value thrown when its conversion succeeds; when that
  conversion throws, what it throws reaches the caller.
\<close>

theorem errors_wrapped_inside_try:
  "(\<forall>e. client_for pf this opts = Inl e \<longrightarrow> generateImage pf this opts = (Inl e, []))
   \<and> (\<forall>c. client_for pf this opts = Inr c \<and> taskType opts \<notin> set TaskType \<longrightarrow>
        generateImage pf this opts
          = (Inl (Error (Str (''Unsupported taskType: '' @ taskType opts))), []))
   \<and> (\<forall>c. client_for pf this opts = Inr c \<and> taskType opts \<in> set TaskType \<longrightarrow>
        (\<exists>command. snd (generateImage pf this opts) = [(c, command)]
          \<and> (\<forall>m. send pf c command = Rejects (Error (Str m)) \<longrightarrow>
                fst (generateImage pf this opts) = Inl (Error (Str (''Image generation failed: '' @ m))))
          \<and> (\<forall>v s. send pf c command = Rejects (NonError v) \<and> js_String pf v = Inr s \<longrightarrow>
                fst (generateImage pf this opts) = Inl (Error (Str (''Image generation failed: '' @ s))))
          \<and> (\<forall>v t. send pf c command = Rejects (NonError v) \<and> js_String pf v = Inl t \<longrightarrow>
                fst (generateImage pf this opts) = Inl t)
          \<and> (send pf c command = Resolves None \<longrightarrow>
                fst (generateImage pf this opts)
                  = Inl (Error (Str ''Image generation failed: No response body received from model'')))
          \<and> (\<forall>bytes m. send pf c command = Resolves (Some bytes)
                  \<and> JSON_parse pf (TextDecoder_decode pf bytes) = Inl (Error (Str m)) \<longrightarrow>
                fst (generateImage pf this opts) = Inl (Error (Str (''Image generation failed: '' @ m))))
          \<and> (\<forall>bytes v err s. send pf c command = Resolves (Some bytes)
                  \<and> JSON_parse pf (TextDecoder_decode pf bytes) = Inr v
                  \<and> get_prop v ''error'' = Inr err \<and> truthy err \<and> js_String pf err = Inr s \<longrightarrow>
                fst (generateImage pf this opts)
                  = Inl (Error (Str (''Image generation failed: Model error: '' @ s))))
          \<and> (\<forall>bytes v err images. send pf c command = Resolves (Some bytes)
                  \<and> JSON_parse pf (TextDecoder_decode pf bytes) = Inr v
                  \<and> get_prop v ''error'' = Inr err \<and> \<not> truthy err
                  \<and> get_prop v ''images'' = Inr images
                  \<and> (\<not> truthy images \<or> \<not> truthy (index0 images)) \<longrightarrow>
                fst (generateImage pf this opts)
                  = Inl (Error (Str ''Image generation failed: No image returned from model'')))
          \<and> (\<forall>e. fst (generateImage pf this opts) = Inl e \<longrightarrow>
                (\<exists>inner. try_block pf (send pf c command) (InvokeModelCommand.modelId command)
                            = Inl inner
                         \<and> (case message_of pf inner of
                              Inl t \<Rightarrow> e = t
                            | Inr m \<Rightarrow> e = Error (Str (''Image generation failed: '' @ m)))))))"
proof (intro conjI allI impI)
  fix e assume "client_for pf this opts = Inl e"
  then show "generateImage pf this opts = (Inl e, [])"
    by (rule generateImage_no_client)
next
  fix c assume "client_for pf this opts = Inr c \<and> taskType opts \<notin> set TaskType"
  then show "generateImage pf this opts
               = (Inl (Error (Str (''Unsupported taskType: '' @ taskType opts))), [])"
    by (simp add: generateImage_unsupported)
next
  fix c assume "client_for pf this opts = Inr c \<and> taskType opts \<in> set TaskType"
  then obtain command where sent: "snd (generateImage pf this opts) = [(c, command)]"
    using recognized_sends by blast
  from sent wrapped_after_send[OF sent]
  show "\<exists>command. snd (generateImage pf this opts) = [(c, command)]
          \<and> (\<forall>m. send pf c command = Rejects (Error (Str m)) \<longrightarrow>
                fst (generateImage pf this opts) = Inl (Error (Str (''Image generation failed: '' @ m))))
          \<and> (\<forall>v s. send pf c command = Rejects (NonError v) \<and> js_String pf v = Inr s \<longrightarrow>
                fst (generateImage pf this opts) = Inl (Error (Str (''Image generation failed: '' @ s))))
          \<and> (\<forall>v t. send pf c command = Rejects (NonError v) \<and> js_String pf v = Inl t \<longrightarrow>
                fst (generateImage pf this opts) = Inl t)
          \<and> (send pf c command = Resolves None \<longrightarrow>
                fst (generateImage pf this opts)
                  = Inl (Error (Str ''Image generation failed: No response body received from model'')))
          \<and> (\<forall>bytes m. send pf c command = Resolves (Some bytes)
                  \<and> JSON_parse pf (TextDecoder_decode pf bytes) = Inl (Error (Str m)) \<longrightarrow>
                fst (generateImage pf this opts) = Inl (Error (Str (''Image generation failed: '' @ m))))
          \<and> (\<forall>bytes v err s. send pf c command = Resolves (Some bytes)
                  \<and> JSON_parse pf (TextDecoder_decode pf bytes) = Inr v
                  \<and> get_prop v ''error'' = Inr err \<and> truthy err \<and> js_String pf err = Inr s \<longrightarrow>
                fst (generateImage pf this opts)
                  = Inl (Error (Str (''Image generation failed: Model error: '' @ s))))
          \<and> (\<forall>bytes v err images. send pf c command = Resolves (Some bytes)
                  \<and> JSON_parse pf (TextDecoder_decode pf bytes) = Inr v
                  \<and> get_prop v ''error'' = Inr err \<and> \<not> truthy err
                  \<and> get_prop v ''images'' = Inr images
                  \<and> (\<not> truthy images \<or> \<not> truthy (index0 images)) \<longrightarrow>
                fst (generateImage pf this opts)
                  = Inl (Error (Str ''Image generation failed: No image returned from model'')))
          \<and> (\<forall>e. fst (generateImage pf this opts) = Inl e \<longrightarrow>
                (\<exists>inner. try_block pf (send pf c command) (InvokeModelCommand.modelId command)
                            = Inl inner
                         \<and> (case message_of pf inner of
                              Inl t \<Rightarrow> e = t
                            | Inr m \<Rightarrow> e = Error (Str (''Image generation failed: '' @ m)))))"
    by blast
qed

theorem unsupported_taskType_unwrapped_counterexample:
  "fst (generateImage
          (stub_platform (Resolves (Some [])) (Inr (Obj [(''images'', Arr [Str ''QUJD''])])))
          us_east_1 (request ''BOGUS''))
     = Inl (Error (Str ''Unsupported taskType: BOGUS''))
   \<and> fst (generateImage
          (stub_platform (Resolves (Some [])) (Inr (Obj [(''images'', Arr [Str ''QUJD''])])))
          us_east_1 (request ''BOGUS''))
     \<noteq> Inl (Error (Str ''Image generation failed: Unsupported taskType: BOGUS''))"
  by (simp add: eval_payload eval_call)

theorem errors_wrapped_inside_try_witness:
  "taskType (request ''TEXT_IMAGE'') \<in> set TaskType
   \<and> fst (generateImage
          (stub_platform (Rejects (Error (Str ''socket hang up''))) (Inl (Error (Str ''Unexpected token''))))
          us_east_1 (request ''TEXT_IMAGE''))
     = Inl (Error (Str ''Image generation failed: socket hang up''))
   \<and> fst (generateImage
          (stub_platform (Resolves (Some [])) (Inl (Error (Str ''Unexpected token''))))
          us_east_1 (request ''TEXT_IMAGE''))
     = Inl (Error (Str ''Image generation failed: Unexpected token''))
   \<and> generateImage
          (stub_platform (Resolves (Some [])) (Inl (Error (Str ''Unexpected token''))))
          us_east_1 ((request ''TEXT_IMAGE'') \<lparr>region := Some ''''\<rparr>)
     = (Inl (Error (Str ''Region is missing'')), [])"
proof -
  define pf1 where
    "pf1 = stub_platform (Rejects (Error (Str ''socket hang up''))) (Inl (Error (Str ''Unexpected token'')))"
  define pf2 where
    "pf2 = stub_platform (Resolves (Some [])) (Inl (Error (Str ''Unexpected token'')))"
  have rec: "taskType (request ''TEXT_IMAGE'') \<in> set TaskType"
    by (simp add: request_def TaskType_def)
  have c1: "client_for pf1 us_east_1 (request ''TEXT_IMAGE'') = Inr (BedrockRuntimeClient ''us-east-1'')"
    and c2: "client_for pf2 us_east_1 (request ''TEXT_IMAGE'') = Inr (BedrockRuntimeClient ''us-east-1'')"
    by (simp_all add: pf1_def pf2_def stub_client)
  have c3: "client_for pf2 us_east_1 ((request ''TEXT_IMAGE'') \<lparr>region := Some ''''\<rparr>)
              = Inl (Error (Str ''Region is missing''))"
    by (simp add: pf2_def client_for_def stub_platform_def us_east_1_def request_def)
  have s1: "\<And>c cmd. send pf1 c cmd = Rejects (Error (Str ''socket hang up''))"
    by (simp add: pf1_def stub_replies)
  have s2: "\<And>c cmd. send pf2 c cmd = Resolves (Some [])"
    and p2: "JSON_parse pf2 (TextDecoder_decode pf2 []) = Inl (Error (Str ''Unexpected token''))"
    by (simp_all add: pf2_def stub_replies)
  note t1 = errors_wrapped_inside_try
              [of pf1 us_east_1 "request ''TEXT_IMAGE''", THEN conjunct2, THEN conjunct2,
               rule_format, OF conjI [OF c1 rec]]
  note t2 = errors_wrapped_inside_try
              [of pf2 us_east_1 "request ''TEXT_IMAGE''", THEN conjunct2, THEN conjunct2,
               rule_format, OF conjI [OF c2 rec]]
  note t3 = errors_wrapped_inside_try
              [of pf2 us_east_1 "(request ''TEXT_IMAGE'') \<lparr>region := Some []\<rparr>",
               THEN conjunct1, rule_format, OF c3]
  from t1 obtain cmd1 where
    "\<forall>m. send pf1 (BedrockRuntimeClient ''us-east-1'') cmd1 = Rejects (Error (Str m)) \<longrightarrow>
         fst (generateImage pf1 us_east_1 (request ''TEXT_IMAGE''))
           = Inl (Error (Str (''Image generation failed: '' @ m)))"
    by (elim exE conjE)
  then have "fst (generateImage pf1 us_east_1 (request ''TEXT_IMAGE''))
          = Inl (Error (Str (''Image generation failed: '' @ ''socket hang up'')))"
    using s1 by blast
  moreover
  from t2 obtain cmd2 where
    "\<forall>bytes m. send pf2 (BedrockRuntimeClient ''us-east-1'') cmd2 = Resolves (Some bytes)
         \<and> JSON_parse pf2 (TextDecoder_decode pf2 bytes) = Inl (Error (Str m)) \<longrightarrow>
         fst (generateImage pf2 us_east_1 (request ''TEXT_IMAGE''))
           = Inl (Error (Str (''Image generation failed: '' @ m)))"
    by (elim exE conjE)
  then have "fst (generateImage pf2 us_east_1 (request ''TEXT_IMAGE''))
          = Inl (Error (Str (''Image generation failed: '' @ ''Unexpected token'')))"
    using s2 p2 by blast
  moreover
  have "generateImage pf2 us_east_1 ((request ''TEXT_IMAGE'') \<lparr>region := Some []\<rparr>)
          = (Inl (Error (Str ''Region is missing'')), [])"
    by (rule t3)
  ultimately show ?thesis
    using rec by (simp add: pf1_def pf2_def)
qed

end
